theory Spec2Isabelle
  imports Main
begin

section \<open>Python values\<close>

text \<open>
  The gateway handles JSON documents only: a request body, the arguments of a tool call,
  the query parameters of an outbound call and the upstream's reply are all values that
  Python's \<^verbatim>\<open>json\<close> module produces. A \<^verbatim>\<open>dict\<close> keeps its insertion order,
  so it is an association list; the keys of a dictionary that came from JSON are strings.
  Numbers are integers (the interface description fixes \<^verbatim>\<open>limit\<close> to plain integers);
  floating point numbers are not modelled. A string is a list of characters whose code
  points lie below 256.
\<close>

datatype json =
    JNull
  | JBool bool
  | JInt int
  | JStr string
  | JList "json list"
  | JObj "(string \<times> json) list"

type_synonym pydict = "(string \<times> json) list"

text \<open>\<^verbatim>\<open>d.get(k)\<close> on a dictionary, and \<^verbatim>\<open>d[k] = v\<close>: an existing key keeps its
  place, a new key goes to the end.\<close>

definition dict_get :: "pydict \<Rightarrow> string \<Rightarrow> json option" where
  "dict_get d k = map_of d k"

fun dict_set :: "pydict \<Rightarrow> string \<Rightarrow> json \<Rightarrow> pydict" where
  "dict_set [] k v = [(k, v)]"
| "dict_set ((k', v') # d) k v = (if k' = k then (k, v) # d else (k', v') # dict_set d k v)"

definition dict_get_default :: "pydict \<Rightarrow> string \<Rightarrow> json \<Rightarrow> json" where
  "dict_get_default d k dflt = (case dict_get d k of None \<Rightarrow> dflt | Some v \<Rightarrow> v)"

text \<open>Truthiness, as \<^verbatim>\<open>if first_name:\<close> tests it.\<close>

fun py_truthy :: "json \<Rightarrow> bool" where
  "py_truthy JNull = False"
| "py_truthy (JBool b) = b"
| "py_truthy (JInt i) = (i \<noteq> 0)"
| "py_truthy (JStr s) = (s \<noteq> [])"
| "py_truthy (JList xs) = (xs \<noteq> [])"
| "py_truthy (JObj d) = (d \<noteq> [])"

fun type_name :: "json \<Rightarrow> string" where
  "type_name JNull = ''NoneType''"
| "type_name (JBool b) = ''bool''"
| "type_name (JInt i) = ''int''"
| "type_name (JStr s) = ''str''"
| "type_name (JList xs) = ''list''"
| "type_name (JObj d) = ''dict''"

subsection \<open>Rendering: \<^verbatim>\<open>str\<close>, \<^verbatim>\<open>repr\<close> and \<^verbatim>\<open>json.dumps(..., indent=2)\<close>\<close>

definition digit_char :: "nat \<Rightarrow> char" where
  "digit_char n = char_of (48 + n)"

fun show_nat :: "nat \<Rightarrow> string" where
  "show_nat n = (if n < 10 then [digit_char n] else show_nat (n div 10) @ [digit_char (n mod 10)])"

declare show_nat.simps [simp del]

definition show_int :: "int \<Rightarrow> string" where
  "show_int i = (if i < 0 then CHR ''-'' # show_nat (nat (- i)) else show_nat (nat i))"

definition hex_char :: "nat \<Rightarrow> char" where
  "hex_char n = (if n < 10 then char_of (48 + n) else char_of (87 + n))"

definition hex2 :: "char \<Rightarrow> string" where
  "hex2 c = [hex_char ((of_char c :: nat) div 16), hex_char ((of_char c :: nat) mod 16)]"

fun join :: "string \<Rightarrow> string list \<Rightarrow> string" where
  "join sep [] = []"
| "join sep [x] = x"
| "join sep (x # y # ys) = x @ sep @ join sep (y # ys)"

definition backslash :: char where "backslash = CHR 0x5C"
definition squote :: char where "squote = CHR 0x27"
definition dquote :: char where "dquote = CHR 0x22"
definition newline :: char where "newline = CHR 0x0A"

text \<open>
  \<^verbatim>\<open>repr\<close> of a string: single quotes, unless the string has a single quote and no
  double quote; the quote and the backslash are escaped, tab, newline and carriage return
  have their letters, every other character that is not printable is written
  \<^verbatim>\<open>\xhh\<close>. Below 256 the characters that are not printable are the controls
  (0 to 31, 127 to 159), the no-break space (160) and the soft hyphen (173).
\<close>

definition repr_printable :: "char \<Rightarrow> bool" where
  "repr_printable c =
     (let n = (of_char c :: nat) in (32 \<le> n \<and> n < 127) \<or> (161 \<le> n \<and> n \<noteq> 173))"

definition repr_char :: "char \<Rightarrow> char \<Rightarrow> string" where
  "repr_char q c =
     (if c = q \<or> c = backslash then [backslash, c]
      else if c = CHR 0x09 then [backslash, CHR ''t'']
      else if c = CHR 0x0A then [backslash, CHR ''n'']
      else if c = CHR 0x0D then [backslash, CHR ''r'']
      else if repr_printable c then [c]
      else [backslash, CHR ''x''] @ hex2 c)"

definition py_repr_str :: "string \<Rightarrow> string" where
  "py_repr_str s =
     (let q = (if squote \<in> set s \<and> dquote \<notin> set s then dquote else squote)
      in [q] @ concat (map (repr_char q) s) @ [q])"

fun py_repr :: "json \<Rightarrow> string" where
  "py_repr JNull = ''None''"
| "py_repr (JBool b) = (if b then ''True'' else ''False'')"
| "py_repr (JInt i) = show_int i"
| "py_repr (JStr s) = py_repr_str s"
| "py_repr (JList xs) = ''['' @ join '', '' (map py_repr xs) @ '']''"
| "py_repr (JObj d) =
     ''{'' @ join '', '' (map (\<lambda>kv. py_repr_str (fst kv) @ '': '' @ py_repr (snd kv)) d) @ ''}''"

text \<open>\<^verbatim>\<open>str(x)\<close>, which is what an f-string writes for \<^verbatim>\<open>{x}\<close>: a string stands for
  itself, every other value is written as \<^verbatim>\<open>repr\<close> writes it.\<close>

fun py_str :: "json \<Rightarrow> string" where
  "py_str (JStr s) = s"
| "py_str v = py_repr v"

text \<open>
  \<^verbatim>\<open>json.dumps\<close> with its default \<^verbatim>\<open>ensure_ascii\<close>: inside double quotes, the
  double quote, the backslash and the five short escapes are written with a backslash,
  every other character outside the range from space to tilde as \<^verbatim>\<open>\u00hh\<close>.
\<close>

definition json_escape_char :: "char \<Rightarrow> string" where
  "json_escape_char c =
     (if c = dquote then [backslash, dquote]
      else if c = backslash then [backslash, backslash]
      else if c = CHR 0x0A then [backslash, CHR ''n'']
      else if c = CHR 0x0D then [backslash, CHR ''r'']
      else if c = CHR 0x09 then [backslash, CHR ''t'']
      else if c = CHR 0x08 then [backslash, CHR ''b'']
      else if c = CHR 0x0C then [backslash, CHR ''f'']
      else if 32 \<le> (of_char c :: nat) \<and> (of_char c :: nat) < 127 then [c]
      else [backslash, CHR ''u'', CHR ''0'', CHR ''0''] @ hex2 c)"

definition json_string :: "string \<Rightarrow> string" where
  "json_string s = [dquote] @ concat (map json_escape_char s) @ [dquote]"

definition newline_indent :: "nat \<Rightarrow> string" where
  "newline_indent level = newline # replicate (2 * level) CHR '' ''"

text \<open>\<^verbatim>\<open>json.dumps(v, indent=2)\<close> at a nesting level: an empty container stays on one line,
  the items of any other go one per line, two spaces deeper, separated by a comma.\<close>

fun dumps_at :: "nat \<Rightarrow> json \<Rightarrow> string" where
  "dumps_at level JNull = ''null''"
| "dumps_at level (JBool b) = (if b then ''true'' else ''false'')"
| "dumps_at level (JInt i) = show_int i"
| "dumps_at level (JStr s) = json_string s"
| "dumps_at level (JList xs) =
     (if xs = [] then ''[]''
      else ''['' @ newline_indent (Suc level)
           @ join ('','' @ newline_indent (Suc level)) (map (dumps_at (Suc level)) xs)
           @ newline_indent level @ '']'')"
| "dumps_at level (JObj d) =
     (if d = [] then ''{}''
      else ''{'' @ newline_indent (Suc level)
           @ join ('','' @ newline_indent (Suc level))
               (map (\<lambda>kv. json_string (fst kv) @ '': '' @ dumps_at (Suc level) (snd kv)) d)
           @ newline_indent level @ ''}'')"

definition json_dumps_indent2 :: "json \<Rightarrow> string" where
  "json_dumps_indent2 v = dumps_at 0 v"

section \<open>Exceptions, the log and the outbound call\<close>

text \<open>
  An exception is its class and the text \<^verbatim>\<open>str(e)\<close> gives. \<open>ValueError\<close> is the
  uniform error of the upstream client; the other classes are the ones the interpreter
  raises on the operations the code performs (their wording is CPython's), and
  \<open>Other_exception\<close> names any class that comes from outside, such as
  \<^verbatim>\<open>asyncio.TimeoutError\<close>, \<^verbatim>\<open>json.JSONDecodeError\<close> or
  \<^verbatim>\<open>aiohttp.ClientConnectionError\<close>. A clause
  \<^verbatim>\<open>except Exception\<close> catches every class but those that derive from
  \<^verbatim>\<open>BaseException\<close> only: \<^verbatim>\<open>asyncio.CancelledError\<close> and the classes under
  \<open>Other_base_exception\<close>.
\<close>

datatype exc_class =
    ValueError
  | TypeError
  | KeyError
  | IndexError
  | AttributeError
  | UnboundLocalError
  | CancelledError
  | Other_exception string
  | Other_base_exception string

datatype pyexc = Exc exc_class string

fun exc_str :: "pyexc \<Rightarrow> string" where
  "exc_str (Exc c m) = m"

fun exc_kind :: "pyexc \<Rightarrow> exc_class" where
  "exc_kind (Exc c m) = c"

fun is_Exception :: "pyexc \<Rightarrow> bool" where
  "is_Exception (Exc CancelledError m) = False"
| "is_Exception (Exc (Other_base_exception n) m) = False"
| "is_Exception (Exc c m) = True"

datatype level = DEBUG | INFO | ERROR

fun level_no :: "level \<Rightarrow> nat" where
  "level_no DEBUG = 10"
| "level_no INFO = 20"
| "level_no ERROR = 40"

record log_record =
  logger :: string
  lvl :: level
  message :: string

record outbound_call =
  http_method :: string
  url :: string
  params :: pydict

text \<open>The state the code acts on: the client's session (created on first use), the
  records handed to the logging module, and the outbound calls made so far.\<close>

record world =
  session_open :: bool
  logs :: "log_record list"
  calls :: "outbound_call list"

definition world0 :: world where
  "world0 = \<lparr>session_open = False, logs = [], calls = []\<rparr>"

definition emit :: "string \<Rightarrow> level \<Rightarrow> string \<Rightarrow> world \<Rightarrow> world" where
  "emit name l m w = w\<lparr>logs := logs w @ [\<lparr>logger = name, lvl = l, message = m\<rparr>]\<rparr>"

text \<open>\<^verbatim>\<open>main.py\<close> configures the root logger with \<^verbatim>\<open>level=logging.DEBUG\<close>, the
  reduced server \<^verbatim>\<open>simple_mcp.py\<close> with \<^verbatim>\<open>level=logging.INFO\<close>; a record is
  written when its level reaches the configured one.\<close>

definition log_output :: "level \<Rightarrow> world \<Rightarrow> log_record list" where
  "log_output threshold w = filter (\<lambda>r. level_no threshold \<le> level_no (lvl r)) (logs w)"

definition main_log_level :: level where
  "main_log_level = DEBUG"

definition simple_log_level :: level where
  "simple_log_level = INFO"

text \<open>
  What \<^verbatim>\<open>session.request\<close>, \<^verbatim>\<open>raise_for_status\<close> and \<^verbatim>\<open>response.json()\<close>
  do is the HTTP library's and the upstream's business. The code sees one of four things:
  \<^item> \<open>Returned j\<close>: no exception, the body decoded to \<open>j\<close>;
  \<^item> \<open>Response_error status msg r\<close>: an \<^verbatim>\<open>aiohttp.ClientResponseError\<close> with these
    attributes; \<open>r\<close> is \<open>None\<close> when it was raised before \<^verbatim>\<open>response\<close> was bound, and
    otherwise the response's content type with what \<^verbatim>\<open>response.json()\<close> gives when the
    handler calls it (a value, or an exception);
  \<^item> \<open>Client_error msg\<close>: any other \<^verbatim>\<open>aiohttp.ClientError\<close>, \<open>msg\<close> its \<^verbatim>\<open>str\<close>;
  \<^item> \<open>Raised e\<close>: an exception of a class outside \<^verbatim>\<open>aiohttp.ClientError\<close>.
\<close>

datatype reply =
    Returned json
  | Response_error int string "(string \<times> (pyexc + json)) option"
  | Client_error string
  | Raised pyexc

type_synonym transport = "outbound_call \<Rightarrow> reply"

text \<open>The transport that gives the same reply to every call.\<close>

definition always :: "reply \<Rightarrow> transport" where
  "always r c = r"

subsection \<open>Operations of the interpreter that can raise\<close>

definition no_attribute :: "json \<Rightarrow> string \<Rightarrow> pyexc" where
  "no_attribute x a =
     Exc AttributeError ([squote] @ type_name x @ [squote] @ '' object has no attribute ''
                         @ [squote] @ a @ [squote])"

definition not_subscriptable :: "json \<Rightarrow> pyexc" where
  "not_subscriptable x =
     Exc TypeError ([squote] @ type_name x @ [squote] @ '' object is not subscriptable'')"

text \<open>\<^verbatim>\<open>x.get(k, dflt)\<close>: only a dictionary has the method.\<close>

definition py_get :: "json \<Rightarrow> string \<Rightarrow> json \<Rightarrow> pyexc + json" where
  "py_get x k dflt =
     (case x of JObj d \<Rightarrow> Inr (dict_get_default d k dflt) | _ \<Rightarrow> Inl (no_attribute x ''get''))"

text \<open>\<^verbatim>\<open>x[0]\<close>. A dictionary that came from JSON has string keys only, so \<open>0\<close> is
  never one of them.\<close>

definition py_index0 :: "json \<Rightarrow> pyexc + json" where
  "py_index0 x =
     (case x of
        JList [] \<Rightarrow> Inl (Exc IndexError ''list index out of range'')
      | JList (y # ys) \<Rightarrow> Inr y
      | JStr [] \<Rightarrow> Inl (Exc IndexError ''string index out of range'')
      | JStr (c # cs) \<Rightarrow> Inr (JStr [c])
      | JObj d \<Rightarrow> Inl (Exc KeyError ''0'')
      | _ \<Rightarrow> Inl (not_subscriptable x))"

text \<open>\<^verbatim>\<open>x[k]\<close> for a string \<open>k\<close>; \<^verbatim>\<open>str\<close> of a \<^verbatim>\<open>KeyError\<close> is the \<^verbatim>\<open>repr\<close> of
  the key.\<close>

definition py_getitem :: "json \<Rightarrow> string \<Rightarrow> pyexc + json" where
  "py_getitem x k =
     (case x of
        JObj d \<Rightarrow> (case dict_get d k of None \<Rightarrow> Inl (Exc KeyError (py_repr_str k)) | Some v \<Rightarrow> Inr v)
      | JList xs \<Rightarrow> Inl (Exc TypeError ''list indices must be integers or slices, not str'')
      | JStr s \<Rightarrow> Inl (Exc TypeError (''string indices must be integers, not '' @ [squote] @ ''str'' @ [squote]))
      | _ \<Rightarrow> Inl (not_subscriptable x))"

section \<open>The upstream client (\<^verbatim>\<open>hunter_api.py\<close>)\<close>

definition BASE_URL :: string where
  "BASE_URL = ''https://api.hunter.io/v2''"

text \<open>The call an operation makes for an endpoint and its own parameters.\<close>

definition api_call :: "string \<Rightarrow> string \<Rightarrow> string \<Rightarrow> pydict \<Rightarrow> outbound_call" where
  "api_call api_key method endpoint ps =
     \<lparr>http_method = method, url = BASE_URL @ ''/'' @ endpoint,
      params = dict_set ps ''api_key'' (JStr api_key)\<rparr>"

definition hunter_api_logger :: string where
  "hunter_api_logger = ''hunter-api''"

definition ensure_session :: "world \<Rightarrow> world" where
  "ensure_session w = (if session_open w then w else w\<lparr>session_open := True\<rparr>)"

text \<open>
  The expression
  \<^verbatim>\<open>error_data.get('errors', [{'details': e.message}])[0].get('details')\<close>
  of the handler, step by step, each step raising what the interpreter raises.
\<close>

definition first_error_details :: "json \<Rightarrow> string \<Rightarrow> pyexc + json" where
  "first_error_details error_data msg =
     (case py_get error_data ''errors'' (JList [JObj [(''details'', JStr msg)]]) of
        Inl e \<Rightarrow> Inl e
      | Inr errs \<Rightarrow>
          (case py_index0 errs of
             Inl e \<Rightarrow> Inl e
           | Inr entry \<Rightarrow> py_get entry ''details'' JNull))"

text \<open>
  \<^verbatim>\<open>HunterAPI._request\<close>. The key is stored into the parameters, the debug record is
  written with the parameters in it, and the call is made. Of the library's exceptions
  only the two \<^verbatim>\<open>except\<close> clauses' classes are caught; an exception raised inside the
  first handler leaves the function as it is.
\<close>

definition HunterAPI_request ::
  "transport \<Rightarrow> string \<Rightarrow> string \<Rightarrow> string \<Rightarrow> pydict \<Rightarrow> world \<Rightarrow> (pyexc + json) \<times> world" where
  "HunterAPI_request tr api_key method endpoint params0 w0 =
     (let w1 = ensure_session w0;
          c = api_call api_key method endpoint params0;
          w2 = emit hunter_api_logger DEBUG
                 (''Making '' @ method @ '' request to '' @ url c @ '' with params ''
                  @ py_repr (JObj (params c))) w1;
          w3 = w2\<lparr>calls := calls w2 @ [c]\<rparr>
      in case tr c of
           Returned j \<Rightarrow> (Inr j, w3)
         | Response_error status msg r \<Rightarrow>
             (let w4 = emit hunter_api_logger ERROR
                         (''API error: '' @ show_int status @ '' - '' @ msg) w3
              in case r of
                   None \<Rightarrow>
                     (Inl (Exc UnboundLocalError
                        (''cannot access local variable '' @ [squote] @ ''response'' @ [squote]
                         @ '' where it is not associated with a value'')), w4)
                 | Some (content_type, body) \<Rightarrow>
                     (case (if content_type = ''application/json'' then body
                            else Inr (JObj [(''error'', JStr msg)])) of
                        Inl e \<Rightarrow> (Inl e, w4)
                      | Inr error_data \<Rightarrow>
                          (case first_error_details error_data msg of
                             Inl e \<Rightarrow> (Inl e, w4)
                           | Inr details \<Rightarrow>
                               (Inl (Exc ValueError (''Hunter API error: '' @ py_str details)), w4))))
         | Client_error msg \<Rightarrow>
             (Inl (Exc ValueError (''Request error: '' @ msg)),
              emit hunter_api_logger ERROR (''Request error: '' @ msg) w3)
         | Raised e \<Rightarrow> (Inl e, w3))"

text \<open>\<^verbatim>\<open>response.get("data", {})\<close> on what \<^verbatim>\<open>_request\<close> returned.\<close>

definition envelope_data :: "(pyexc + json) \<times> world \<Rightarrow> (pyexc + json) \<times> world" where
  "envelope_data r =
     (case r of
        (Inl e, w) \<Rightarrow> (Inl e, w)
      | (Inr response, w) \<Rightarrow> (py_get response ''data'' (JObj []), w))"

text \<open>A parameter with a default is an \<open>option\<close>: \<open>None\<close> when the caller leaves it out.\<close>

definition or_default :: "json option \<Rightarrow> json \<Rightarrow> json" where
  "or_default a dflt = (case a of None \<Rightarrow> dflt | Some v \<Rightarrow> v)"

definition add_if_truthy :: "string \<Rightarrow> json \<Rightarrow> pydict \<Rightarrow> pydict" where
  "add_if_truthy k v d = (if py_truthy v then dict_set d k v else d)"

definition find_email_params ::
  "json \<Rightarrow> json option \<Rightarrow> json option \<Rightarrow> json option \<Rightarrow> json option \<Rightarrow> pydict" where
  "find_email_params domain first_name last_name company full_name =
     add_if_truthy ''full_name'' (or_default full_name JNull)
       (add_if_truthy ''company'' (or_default company JNull)
         (add_if_truthy ''last_name'' (or_default last_name JNull)
           (add_if_truthy ''first_name'' (or_default first_name JNull)
             [(''domain'', domain)])))"

definition find_email ::
  "transport \<Rightarrow> string \<Rightarrow> json \<Rightarrow> json option \<Rightarrow> json option \<Rightarrow> json option \<Rightarrow> json option
     \<Rightarrow> world \<Rightarrow> (pyexc + json) \<times> world" where
  "find_email tr api_key domain first_name last_name company full_name w =
     envelope_data
       (HunterAPI_request tr api_key ''GET'' ''email-finder''
          (find_email_params domain first_name last_name company full_name) w)"

definition verify_email :: "transport \<Rightarrow> string \<Rightarrow> json \<Rightarrow> world \<Rightarrow> (pyexc + json) \<times> world" where
  "verify_email tr api_key email w =
     envelope_data (HunterAPI_request tr api_key ''GET'' ''email-verifier'' [(''email'', email)] w)"

definition domain_search_params :: "json \<Rightarrow> json option \<Rightarrow> json option \<Rightarrow> pydict" where
  "domain_search_params domain limit type =
     add_if_truthy ''type'' (or_default type JNull)
       [(''domain'', domain), (''limit'', or_default limit (JInt 10))]"

definition domain_search ::
  "transport \<Rightarrow> string \<Rightarrow> json \<Rightarrow> json option \<Rightarrow> json option \<Rightarrow> world \<Rightarrow> (pyexc + json) \<times> world" where
  "domain_search tr api_key domain limit type w =
     envelope_data
       (HunterAPI_request tr api_key ''GET'' ''domain-search''
          (domain_search_params domain limit type) w)"

section \<open>The gateway (\<^verbatim>\<open>main.py\<close>)\<close>

definition main_logger :: string where
  "main_logger = ''hunter-mcp''"

text \<open>What the endpoint hands to the web framework: a response with its status and JSON
  body, or an exception that left the handler uncaught.\<close>

datatype http_result =
    Response nat json
  | Unhandled pyexc

definition tool_result :: "json \<Rightarrow> http_result" where
  "tool_result result =
     Response 200
       (JObj [(''content'',
               JList [JObj [(''type'', JStr ''text''),
                            (''text'', JStr (json_dumps_indent2 result))]])])"

definition error_response :: "nat \<Rightarrow> string \<Rightarrow> http_result" where
  "error_response status m = Response status (JObj [(''error'', JStr m)])"

definition wrap_result :: "(pyexc + json) \<times> world \<Rightarrow> (pyexc + http_result) \<times> world" where
  "wrap_result r =
     (case r of
        (Inl e, w) \<Rightarrow> (Inl e, w)
      | (Inr result, w) \<Rightarrow> (Inr (tool_result result), w))"

text \<open>
  \<^verbatim>\<open>hunter_api.find_email(**arguments)\<close>: the interpreter binds the keywords to the
  parameters of \<^verbatim>\<open>find_email\<close>. The value must be a mapping, every key must name a
  parameter (\<^verbatim>\<open>self\<close> is already bound), and \<^verbatim>\<open>domain\<close>, which has no default, must
  be among them. This is all the checking \<^verbatim>\<open>call_tool\<close> does for this tool.
\<close>

definition find_email_names :: "string list" where
  "find_email_names = [''domain'', ''first_name'', ''last_name'', ''company'', ''full_name'']"

definition bind_find_email ::
  "json \<Rightarrow> pyexc + (json \<times> json option \<times> json option \<times> json option \<times> json option)" where
  "bind_find_email arguments =
     (case arguments of
        JObj d \<Rightarrow>
          (case filter (\<lambda>k. k \<notin> set find_email_names) (map fst d) of
             k # ks \<Rightarrow>
               Inl (Exc TypeError
                 (if k = ''self''
                  then ''HunterAPI.find_email() got multiple values for argument ''
                       @ [squote] @ ''self'' @ [squote]
                  else ''HunterAPI.find_email() got an unexpected keyword argument ''
                       @ [squote] @ k @ [squote]))
           | [] \<Rightarrow>
               (case dict_get d ''domain'' of
                  None \<Rightarrow>
                    Inl (Exc TypeError
                      (''HunterAPI.find_email() missing 1 required positional argument: ''
                       @ [squote] @ ''domain'' @ [squote]))
                | Some domain \<Rightarrow>
                    Inr (domain, dict_get d ''first_name'', dict_get d ''last_name'',
                         dict_get d ''company'', dict_get d ''full_name'')))
      | _ \<Rightarrow>
          Inl (Exc TypeError
            (''hunter_api.HunterAPI.find_email() argument after ** must be a mapping, not ''
             @ type_name arguments)))"

text \<open>The body of the \<^verbatim>\<open>try\<close> block of \<^verbatim>\<open>call_tool\<close>.\<close>

definition call_tool_try ::
  "transport \<Rightarrow> string \<Rightarrow> json \<Rightarrow> json \<Rightarrow> world \<Rightarrow> (pyexc + http_result) \<times> world" where
  "call_tool_try tr api_key name arguments w =
     (if name = JStr ''email_finder'' then
        (case bind_find_email arguments of
           Inl e \<Rightarrow> (Inl e, w)
         | Inr (domain, first_name, last_name, company, full_name) \<Rightarrow>
             wrap_result (find_email tr api_key domain first_name last_name company full_name w))
      else if name = JStr ''email_verifier'' then
        (case py_getitem arguments ''email'' of
           Inl e \<Rightarrow> (Inl e, w)
         | Inr email \<Rightarrow> wrap_result (verify_email tr api_key email w))
      else if name = JStr ''domain_search'' then
        (case py_get arguments ''limit'' (JInt 10) of
           Inl e \<Rightarrow> (Inl e, w)
         | Inr limit \<Rightarrow>
             (case py_get arguments ''type'' JNull of
                Inl e \<Rightarrow> (Inl e, w)
              | Inr email_type \<Rightarrow>
                  (case py_getitem arguments ''domain'' of
                     Inl e \<Rightarrow> (Inl e, w)
                   | Inr domain \<Rightarrow>
                       wrap_result
                         (domain_search tr api_key domain (Some limit) (Some email_type) w))))
      else (Inr (error_response 404 (''Unknown tool: '' @ py_str name)), w))"

text \<open>The rest of \<^verbatim>\<open>call_tool\<close> once \<^verbatim>\<open>name\<close> and \<^verbatim>\<open>arguments\<close> are read:
  the record of the call, the \<^verbatim>\<open>try\<close> block and its \<^verbatim>\<open>except Exception\<close>.\<close>

definition call_tool_handle ::
  "transport \<Rightarrow> string \<Rightarrow> json \<Rightarrow> json \<Rightarrow> world \<Rightarrow> http_result \<times> world" where
  "call_tool_handle tr api_key name arguments w =
     (let w1 = emit main_logger INFO
                 (''Tool call: '' @ py_str name @ '' with arguments '' @ py_str arguments) w
      in case call_tool_try tr api_key name arguments w1 of
           (Inr resp, w2) \<Rightarrow> (resp, w2)
         | (Inl e, w2) \<Rightarrow>
             (if is_Exception e
              then (error_response 500 (exc_str e),
                    emit main_logger ERROR
                      (''Error executing tool '' @ py_str name @ '': '' @ exc_str e) w2)
              else (Unhandled e, w2)))"

text \<open>
  \<^verbatim>\<open>call_tool\<close> of \<^verbatim>\<open>main.py\<close>. Its argument is what \<^verbatim>\<open>await request.json()\<close>
  gives: the decoded body, or the exception of a body that is not JSON. The first three
  statements stand before the \<^verbatim>\<open>try\<close>.
\<close>

definition call_tool ::
  "transport \<Rightarrow> string \<Rightarrow> pyexc + json \<Rightarrow> world \<Rightarrow> http_result \<times> world" where
  "call_tool tr api_key body w =
     (case body of
        Inl e \<Rightarrow> (Unhandled e, w)
      | Inr data \<Rightarrow>
          (case py_get data ''name'' JNull of
             Inl e \<Rightarrow> (Unhandled e, w)
           | Inr name \<Rightarrow>
               (case py_get data ''arguments'' (JObj []) of
                  Inl e \<Rightarrow> (Unhandled e, w)
                | Inr arguments \<Rightarrow> call_tool_handle tr api_key name arguments w)))"

section \<open>The reduced server (\<^verbatim>\<open>simple_mcp.py\<close>)\<close>

definition simple_logger :: string where
  "simple_logger = ''hunter-mcp-simple''"

text \<open>The reduced server's \<^verbatim>\<open>call_tool\<close> has the whole body inside its \<^verbatim>\<open>try\<close>, knows
  two tools, and calls \<^verbatim>\<open>domain_search\<close> with the domain only.\<close>

definition simple_call_tool_try ::
  "transport \<Rightarrow> string \<Rightarrow> pyexc + json \<Rightarrow> world \<Rightarrow> (pyexc + http_result) \<times> world" where
  "simple_call_tool_try tr api_key body w =
     (case body of
        Inl e \<Rightarrow> (Inl e, w)
      | Inr data \<Rightarrow>
          (case py_get data ''name'' JNull of
             Inl e \<Rightarrow> (Inl e, w)
           | Inr name \<Rightarrow>
               (case py_get data ''arguments'' (JObj []) of
                  Inl e \<Rightarrow> (Inl e, w)
                | Inr arguments \<Rightarrow>
                    (let w1 = emit simple_logger INFO
                                (''Tool call: '' @ py_str name @ '' with arguments ''
                                 @ py_str arguments) w
                     in if name = JStr ''email_finder'' then
                          (case bind_find_email arguments of
                             Inl e \<Rightarrow> (Inl e, w1)
                           | Inr (domain, first_name, last_name, company, full_name) \<Rightarrow>
                               wrap_result
                                 (find_email tr api_key domain first_name last_name company
                                    full_name w1))
                        else if name = JStr ''domain_search'' then
                          (case py_getitem arguments ''domain'' of
                             Inl e \<Rightarrow> (Inl e, w1)
                           | Inr domain \<Rightarrow>
                               wrap_result (domain_search tr api_key domain None None w1))
                        else
                          (Inr (error_response 404 (''Unknown tool: '' @ py_str name)),
                           emit simple_logger ERROR (''Unknown tool: '' @ py_str name) w1)))))"

definition simple_call_tool ::
  "transport \<Rightarrow> string \<Rightarrow> pyexc + json \<Rightarrow> world \<Rightarrow> http_result \<times> world" where
  "simple_call_tool tr api_key body w =
     (case simple_call_tool_try tr api_key body w of
        (Inr resp, w1) \<Rightarrow> (resp, w1)
      | (Inl e, w1) \<Rightarrow>
          (if is_Exception e
           then (error_response 500 (exc_str e),
                 emit simple_logger ERROR (''Error executing tool: '' @ exc_str e) w1)
           else (Unhandled e, w1)))"

section \<open>The event stream (\<^verbatim>\<open>event_generator\<close> of \<^verbatim>\<open>main.py\<close>)\<close>

text \<open>\<^verbatim>\<open>json.dumps\<close> without \<^verbatim>\<open>indent\<close>: one line, items separated by a comma and a
  space.\<close>

fun dumps_compact :: "json \<Rightarrow> string" where
  "dumps_compact JNull = ''null''"
| "dumps_compact (JBool b) = (if b then ''true'' else ''false'')"
| "dumps_compact (JInt i) = show_int i"
| "dumps_compact (JStr s) = json_string s"
| "dumps_compact (JList xs) = ''['' @ join '', '' (map dumps_compact xs) @ '']''"
| "dumps_compact (JObj d) =
     ''{'' @ join '', '' (map (\<lambda>kv. json_string (fst kv) @ '': '' @ dumps_compact (snd kv)) d)
     @ ''}''"

record sse_event =
  event :: string
  data :: string

text \<open>
  An asynchronous generator is a state machine. It rests at a \<^verbatim>\<open>yield\<close> or inside an
  \<^verbatim>\<open>await asyncio.sleep\<close>; the position says where. The loop counter \<^verbatim>\<open>count\<close> is
  part of the position.
\<close>

datatype position =
    Not_started
  | At_connected
  | Sleep_1
  | At_capabilities
  | Sleep_2
  | At_initialization_complete
  | Sleep_3
  | Sleep_ping nat
  | At_ping nat
  | Finished

text \<open>
  What reaches the resting generator: \<open>Resume\<close> (the consumer asks for the next event,
  or the sleep has elapsed), \<open>Cancel\<close> (\<^verbatim>\<open>asyncio.CancelledError\<close> is thrown in) or
  \<open>Close\<close> (\<^verbatim>\<open>GeneratorExit\<close> is thrown in, as \<^verbatim>\<open>aclose()\<close> does).
  What comes out: an event, a request to sleep for so many milliseconds, the end of the
  generator without an error, or an exception.
\<close>

datatype signal = Resume | Cancel | Close

datatype emission =
    Yielded sse_event
  | Sleeping nat
  | Stopped
  | Failed pyexc

definition connected_event :: sse_event where
  "connected_event =
     \<lparr>event = ''connected'',
      data = dumps_compact (JObj [(''server'', JStr ''hunter-mcp''), (''version'', JStr ''1.0.0'')])\<rparr>"

definition capabilities_event :: sse_event where
  "capabilities_event =
     \<lparr>event = ''capabilities'',
      data = dumps_compact (JObj [(''tools'', JBool True), (''resources'', JBool True),
                                  (''logging'', JBool True)])\<rparr>"

definition initialization_complete_event :: sse_event where
  "initialization_complete_event =
     \<lparr>event = ''initialization_complete'', data = dumps_compact (JObj [])\<rparr>"

text \<open>The payload of a ping is the event loop's time, a floating point number; \<open>clock k\<close>
  is that number as \<^verbatim>\<open>json.dumps\<close> writes it when the \<open>k\<close>-th ping is made.\<close>

definition ping_event :: "(nat \<Rightarrow> string) \<Rightarrow> nat \<Rightarrow> sse_event" where
  "ping_event clock k =
     \<lparr>event = ''ping'', data = ''{'' @ json_string ''timestamp'' @ '': '' @ clock k @ ''}''\<rparr>"

definition info :: "string \<Rightarrow> log_record" where
  "info m = \<lparr>logger = main_logger, lvl = INFO, message = m\<rparr>"

definition debug :: "string \<Rightarrow> log_record" where
  "debug m = \<lparr>logger = main_logger, lvl = DEBUG, message = m\<rparr>"

text \<open>The delays of the code, in milliseconds: \<^verbatim>\<open>asyncio.sleep(0.1)\<close> between the
  events of the handshake and \<^verbatim>\<open>asyncio.sleep(10)\<close> before each ping.\<close>

definition handshake_delay :: nat where
  "handshake_delay = 100"

definition ping_interval :: nat where
  "ping_interval = 10000"

text \<open>
  One step of the generator, from a position and a signal to the records it logs, what it
  gives out and where it rests next. A \<open>Cancel\<close> inside the \<^verbatim>\<open>try\<close> is caught by
  \<^verbatim>\<open>except asyncio.CancelledError\<close>, which logs and lets the generator return.
  \<^verbatim>\<open>GeneratorExit\<close> is no \<^verbatim>\<open>Exception\<close>: neither clause catches it and the generator
  is closed. Before the first \<^verbatim>\<open>__anext__\<close> the body has not entered its \<^verbatim>\<open>try\<close>.
\<close>

fun event_generator_step ::
  "(nat \<Rightarrow> string) \<Rightarrow> position \<Rightarrow> signal \<Rightarrow> log_record list \<times> emission \<times> position" where
  "event_generator_step clock Finished s = ([], Stopped, Finished)"
| "event_generator_step clock Not_started Cancel =
     ([], Failed (Exc CancelledError []), Finished)"
| "event_generator_step clock Not_started Close = ([], Stopped, Finished)"
| "event_generator_step clock p Cancel =
     ([info ''SSE connection was cancelled''], Stopped, Finished)"
| "event_generator_step clock p Close = ([], Stopped, Finished)"
| "event_generator_step clock Not_started Resume =
     ([info ''Sending connected event''], Yielded connected_event, At_connected)"
| "event_generator_step clock At_connected Resume = ([], Sleeping handshake_delay, Sleep_1)"
| "event_generator_step clock Sleep_1 Resume =
     ([info ''Sending capabilities event''], Yielded capabilities_event, At_capabilities)"
| "event_generator_step clock At_capabilities Resume = ([], Sleeping handshake_delay, Sleep_2)"
| "event_generator_step clock Sleep_2 Resume =
     ([info ''Sending initialization_complete event''],
      Yielded initialization_complete_event, At_initialization_complete)"
| "event_generator_step clock At_initialization_complete Resume =
     ([], Sleeping handshake_delay, Sleep_3)"
| "event_generator_step clock Sleep_3 Resume = ([], Sleeping ping_interval, Sleep_ping 0)"
| "event_generator_step clock (Sleep_ping count) Resume =
     ([debug (''Sending ping event '' @ show_nat (Suc count))],
      Yielded (ping_event clock (Suc count)), At_ping (Suc count))"
| "event_generator_step clock (At_ping count) Resume =
     ([], Sleeping ping_interval, Sleep_ping count)"

text \<open>A session: the generator driven by a sequence of signals, with everything it logs
  and gives out.\<close>

fun event_generator_run ::
  "(nat \<Rightarrow> string) \<Rightarrow> position \<Rightarrow> signal list \<Rightarrow> log_record list \<times> emission list \<times> position" where
  "event_generator_run clock p [] = ([], [], p)"
| "event_generator_run clock p (s # ss) =
     (case event_generator_step clock p s of
        (l, out, p') \<Rightarrow>
          (case event_generator_run clock p' ss of
             (ls, outs, p'') \<Rightarrow> (l @ ls, out # outs, p'')))"

definition outputs :: "log_record list \<times> emission list \<times> position \<Rightarrow> emission list" where
  "outputs r = fst (snd r)"

section \<open>The tool registry (\<^verbatim>\<open>TOOLS\<close> of \<^verbatim>\<open>main.py\<close>)\<close>

text \<open>Of each descriptor the name and the input schema: the properties with their type
  and enumeration, the \<^verbatim>\<open>required\<close> list, and the alternatives of \<^verbatim>\<open>anyOf\<close>, each
  a \<^verbatim>\<open>required\<close> list of its own (no alternatives when the schema has no
  \<^verbatim>\<open>anyOf\<close>).\<close>

datatype json_type = T_string | T_integer

record property =
  prop_name :: string
  prop_type :: json_type
  prop_enum :: "string list option"

record tool_descriptor =
  tool_name :: string
  properties :: "property list"
  required :: "string list"
  any_of :: "string list list"

definition string_property :: "string \<Rightarrow> property" where
  "string_property n = \<lparr>prop_name = n, prop_type = T_string, prop_enum = None\<rparr>"

definition TOOLS :: "tool_descriptor list" where
  "TOOLS =
     [\<lparr>tool_name = ''email_finder'',
       properties = map string_property
                      [''domain'', ''first_name'', ''last_name'', ''company'', ''full_name''],
       required = [''domain''],
       any_of = [[''first_name'', ''last_name''], [''full_name'']]\<rparr>,
      \<lparr>tool_name = ''email_verifier'',
       properties = [string_property ''email''],
       required = [''email''],
       any_of = []\<rparr>,
      \<lparr>tool_name = ''domain_search'',
       properties = [string_property ''domain'',
                     \<lparr>prop_name = ''limit'', prop_type = T_integer, prop_enum = None\<rparr>,
                     \<lparr>prop_name = ''type'', prop_type = T_string,
                      prop_enum = Some [''personal'', ''generic'']\<rparr>],
       required = [''domain''],
       any_of = []\<rparr>]"

definition TOOL_NAMES :: "string list" where
  "TOOL_NAMES = map tool_name TOOLS"






text \<open>A text between double quotes.\<close>

definition quoted :: "string \<Rightarrow> string" where
  "quoted s = CHR 0x22 # s @ [CHR 0x22]"

text \<open>The stream a session is expected to give: the three events of the handshake, each
  followed by the short delay, and then, again and again, the wait of the ping interval
  followed by a ping.\<close>

definition handshake :: "emission list" where
  "handshake =
     [Yielded connected_event, Sleeping handshake_delay,
      Yielded capabilities_event, Sleeping handshake_delay,
      Yielded initialization_complete_event, Sleeping handshake_delay]"

definition pings :: "(nat \<Rightarrow> string) \<Rightarrow> nat \<Rightarrow> emission list" where
  "pings clock n =
     concat (map (\<lambda>k. [Sleeping ping_interval, Yielded (ping_event clock k)]) [1..<Suc n])"

definition position_of :: "log_record list \<times> emission list \<times> position \<Rightarrow> position" where
  "position_of r = snd (snd r)"

text \<open>The record of \<^verbatim>\<open>_request\<close> that gives the credential away: a record of the
  client's logger at level DEBUG, written under the configuration of \<^verbatim>\<open>main.py\<close>, whose
  message ends with the \<^verbatim>\<open>api_key\<close> entry of the parameters.\<close>

definition ends_with :: "string \<Rightarrow> string \<Rightarrow> bool" where
  "ends_with s t = (length t \<le> length s \<and> drop (length s - length t) s = t)"

definition logs_key :: "string \<Rightarrow> world \<Rightarrow> bool" where
  "logs_key api_key w =
     list_ex (\<lambda>r. logger r = hunter_api_logger \<and> lvl r = DEBUG \<and>
                  ends_with (message r)
                    (squote # ''api_key'' @ squote # '': '' @ py_repr_str api_key @ ''}''))
       (log_output main_log_level w)"

text \<open>Two runs look the same to somebody who sees the result and the log from level INFO
  upwards.\<close>

definition same_view :: "'a \<times> world \<Rightarrow> 'a \<times> world \<Rightarrow> bool" where
  "same_view x y = (fst x = fst y \<and> log_output INFO (snd x) = log_output INFO (snd y))"

section \<open>Basic facts about the model\<close>

lemma dict_get_dict_set:
  "dict_get (dict_set d k v) k' = (if k' = k then Some v else dict_get d k')"
  by (induction d) (auto simp: dict_get_def)

lemma keys_dict_set: "fst ` set (dict_set d k v) = insert k (fst ` set d)"
proof (induction d)
  case Nil
  show ?case by simp
next
  case (Cons a d)
  obtain k' v' where a: "a = (k', v')" by (cases a)
  show ?case
  proof (cases "k' = k")
    case True
    then show ?thesis by (simp add: a)
  next
    case False
    then show ?thesis using Cons.IH by (simp add: a insert_commute)
  qed
qed

lemma dict_get_None_iff: "dict_get d k = None \<longleftrightarrow> k \<notin> fst ` set d"
  by (simp add: dict_get_def map_of_eq_None_iff)

lemma calls_emit [simp]: "calls (emit n l m w) = calls w"
  by (simp add: emit_def)

lemma calls_ensure_session [simp]: "calls (ensure_session w) = calls w"
  by (simp add: ensure_session_def)

lemma calls_request:
  "calls (snd (HunterAPI_request tr key m ep ps w)) = calls w @ [api_call key m ep ps]"
  by (simp add: HunterAPI_request_def Let_def split: reply.splits option.splits sum.splits prod.splits)

lemma snd_envelope_data [simp]: "snd (envelope_data r) = snd r"
  by (simp add: envelope_data_def split: prod.splits sum.splits)

lemma snd_wrap_result [simp]: "snd (wrap_result r) = snd r"
  by (simp add: wrap_result_def split: prod.splits sum.splits)

lemma fst_wrap_result:
  "fst (wrap_result r) = (case fst r of Inl e \<Rightarrow> Inl e | Inr x \<Rightarrow> Inr (tool_result x))"
  by (simp add: wrap_result_def split: prod.splits sum.splits)

lemma fst_envelope_data:
  "fst (envelope_data r) = (case fst r of Inl e \<Rightarrow> Inl e | Inr x \<Rightarrow> py_get x ''data'' (JObj []))"
  by (simp add: envelope_data_def split: prod.splits sum.splits)

lemma request_returned:
  "tr (api_call key m ep ps) = Returned j \<Longrightarrow> fst (HunterAPI_request tr key m ep ps w) = Inr j"
  by (simp add: HunterAPI_request_def Let_def)

lemma calls_find_email:
  "calls (snd (find_email tr key domain fn ln co fu w)) =
     calls w @ [api_call key ''GET'' ''email-finder'' (find_email_params domain fn ln co fu)]"
  by (simp add: find_email_def calls_request)

lemma calls_verify_email:
  "calls (snd (verify_email tr key email w)) =
     calls w @ [api_call key ''GET'' ''email-verifier'' [(''email'', email)]]"
  by (simp add: verify_email_def calls_request)

lemma calls_domain_search:
  "calls (snd (domain_search tr key domain lim ty w)) =
     calls w @ [api_call key ''GET'' ''domain-search'' (domain_search_params domain lim ty)]"
  by (simp add: domain_search_def calls_request)

lemma fst_call_tool_handle:
  "fst (call_tool_handle tr key name arguments w) =
     (case fst (call_tool_try tr key name arguments
                  (emit main_logger INFO
                     (''Tool call: '' @ py_str name @ '' with arguments '' @ py_str arguments) w)) of
        Inr resp \<Rightarrow> resp
      | Inl e \<Rightarrow> if is_Exception e then error_response 500 (exc_str e) else Unhandled e)"
  by (simp add: call_tool_handle_def Let_def split: prod.splits sum.splits)

lemma calls_call_tool_handle:
  "calls (snd (call_tool_handle tr key name arguments w)) =
     calls (snd (call_tool_try tr key name arguments
                  (emit main_logger INFO
                     (''Tool call: '' @ py_str name @ '' with arguments '' @ py_str arguments) w)))"
  by (simp add: call_tool_handle_def Let_def split: prod.splits sum.splits)

lemma call_tool_object:
  "call_tool tr key (Inr (JObj d)) w =
     call_tool_handle tr key (dict_get_default d ''name'' JNull)
       (dict_get_default d ''arguments'' (JObj [])) w"
  by (simp add: call_tool_def py_get_def)

lemma call_tool_try_unknown:
  "name \<notin> set (map JStr TOOL_NAMES) \<Longrightarrow>
     call_tool_try tr key name arguments w =
       (Inr (error_response 404 (''Unknown tool: '' @ py_str name)), w)"
  by (auto simp: call_tool_try_def TOOL_NAMES_def TOOLS_def)

lemma call_tool_try_verifier:
  "call_tool_try tr key (JStr ''email_verifier'') arguments w =
     (case py_getitem arguments ''email'' of
        Inl e \<Rightarrow> (Inl e, w)
      | Inr email \<Rightarrow> wrap_result (verify_email tr key email w))"
  by (simp add: call_tool_try_def)

lemma call_tool_try_domain_search:
  "call_tool_try tr key (JStr ''domain_search'') (JObj a) w =
     (case dict_get a ''domain'' of
        None \<Rightarrow> (Inl (Exc KeyError (py_repr_str ''domain'')), w)
      | Some domain \<Rightarrow>
          wrap_result (domain_search tr key domain (Some (dict_get_default a ''limit'' (JInt 10)))
                         (Some (dict_get_default a ''type'' JNull)) w))"
  by (simp add: call_tool_try_def py_get_def py_getitem_def split: option.splits)

lemma limit_domain_search_params:
  "dict_get (params (api_call key m ep (domain_search_params domain lim ty))) ''limit''
     = Some (or_default lim (JInt 10))"
  by (simp add: api_call_def domain_search_params_def add_if_truthy_def dict_get_dict_set)
     (simp add: dict_get_def)

lemma dict_get_find_email_params:
  "k \<noteq> ''api_key'' \<Longrightarrow>
   dict_get (params (api_call key m ep ps)) k = dict_get ps k"
  by (simp add: api_call_def dict_get_dict_set)

lemma find_email_params_get:
  "dict_get (find_email_params domain fn ln co fu) ''domain'' = Some domain"
  "dict_get (find_email_params domain fn ln co fu) ''first_name'' =
     (if py_truthy (or_default fn JNull) then fn else None)"
  "dict_get (find_email_params domain fn ln co fu) ''last_name'' =
     (if py_truthy (or_default ln JNull) then ln else None)"
  "dict_get (find_email_params domain fn ln co fu) ''company'' =
     (if py_truthy (or_default co JNull) then co else None)"
  "dict_get (find_email_params domain fn ln co fu) ''full_name'' =
     (if py_truthy (or_default fu JNull) then fu else None)"
  by (auto simp: find_email_params_def add_if_truthy_def dict_get_dict_set or_default_def
        dict_get_def split: option.splits)

lemma find_email_params_keys:
  "fst ` set (find_email_params domain fn ln co fu) \<subseteq> set find_email_names"
  by (auto simp: find_email_params_def add_if_truthy_def keys_dict_set find_email_names_def)







section \<open>Dispatch of \<^verbatim>\<open>POST /tools/call\<close>\<close>

text \<open>
  Claim C10. A body that is a JSON object without a \<^verbatim>\<open>name\<close> key is answered like a call
  of an unknown tool: \<^verbatim>\<open>data.get("name")\<close> is \<^verbatim>\<open>None\<close>, no branch of the dispatch
  matches it, and the response is HTTP 404 with the body
  \<^verbatim>\<open>{"error": "Unknown tool: None"}\<close>. No outbound call is made.
\<close>

theorem call_tool_missing_name:
  assumes "dict_get d ''name'' = None"
  shows "fst (call_tool tr key (Inr (JObj d)) w) =
           Response 404 (JObj [(''error'', JStr ''Unknown tool: None'')])
         \<and> calls (snd (call_tool tr key (Inr (JObj d)) w)) = calls w"
proof -
  have n: "dict_get_default d ''name'' JNull = JNull"
    using assms by (simp add: dict_get_default_def)
  have "JNull \<notin> set (map JStr TOOL_NAMES)" by auto
  then show ?thesis
    by (simp add: call_tool_object n fst_call_tool_handle calls_call_tool_handle
          call_tool_try_unknown error_response_def del: set_map)
qed

theorem call_tool_missing_name_witness:
  "dict_get [(''arguments'', JObj [])] ''name'' = None
   \<and> fst (call_tool (always (Returned (JObj []))) ''KEY''
          (Inr (JObj [(''arguments'', JObj [])])) world0) =
       Response 404 (JObj [(''error'', JStr ''Unknown tool: None'')])
   \<and> calls (snd (call_tool (always (Returned (JObj []))) ''KEY''
          (Inr (JObj [(''arguments'', JObj [])])) world0)) = []"
  using call_tool_missing_name
          [of "[(''arguments'', JObj [])]" "always (Returned (JObj []))" "''KEY''" world0]
  by (simp add: dict_get_def world0_def)



section \<open>Parameters of the outbound calls\<close>

text \<open>
  Claim C6. When no \<^verbatim>\<open>limit\<close> is given, the outbound call of \<^verbatim>\<open>domain_search\<close> has
  \<^verbatim>\<open>limit=10\<close>: called on the client with the parameter left out, the default of the
  signature applies; called through \<^verbatim>\<open>POST /tools/call\<close> with arguments that have a
  \<^verbatim>\<open>domain\<close> and no \<^verbatim>\<open>limit\<close>, \<^verbatim>\<open>arguments.get("limit", 10)\<close> supplies it.
\<close>

theorem domain_search_default_limit:
  "(\<exists>c. calls (snd (domain_search tr key domain None ty w)) = calls w @ [c]
        \<and> url c = ''https://api.hunter.io/v2/domain-search''
        \<and> dict_get (params c) ''limit'' = Some (JInt 10))
   \<and> (dict_get d ''name'' = Some (JStr ''domain_search'') \<longrightarrow>
      dict_get d ''arguments'' = Some (JObj a) \<longrightarrow>
      dict_get a ''domain'' = Some domain \<longrightarrow>
      dict_get a ''limit'' = None \<longrightarrow>
        (\<exists>c. calls (snd (call_tool tr key (Inr (JObj d)) w)) = calls w @ [c]
           \<and> url c = ''https://api.hunter.io/v2/domain-search''
           \<and> dict_get (params c) ''limit'' = Some (JInt 10)))"
proof (intro conjI impI)
  have u: "url (api_call key ''GET'' ''domain-search'' ps) = ''https://api.hunter.io/v2/domain-search''" for ps
    by (simp add: api_call_def BASE_URL_def)
  show "\<exists>c. calls (snd (domain_search tr key domain None ty w)) = calls w @ [c]
        \<and> url c = ''https://api.hunter.io/v2/domain-search''
        \<and> dict_get (params c) ''limit'' = Some (JInt 10)"
    using u by (simp add: calls_domain_search limit_domain_search_params or_default_def)
  assume n: "dict_get d ''name'' = Some (JStr ''domain_search'')"
    and a: "dict_get d ''arguments'' = Some (JObj a)"
    and dm: "dict_get a ''domain'' = Some domain"
    and l: "dict_get a ''limit'' = None"
  have "call_tool tr key (Inr (JObj d)) w = call_tool_handle tr key (JStr ''domain_search'') (JObj a) w"
    using n a by (simp add: call_tool_object dict_get_default_def)
  then show "\<exists>c. calls (snd (call_tool tr key (Inr (JObj d)) w)) = calls w @ [c]
           \<and> url c = ''https://api.hunter.io/v2/domain-search''
           \<and> dict_get (params c) ''limit'' = Some (JInt 10)"
    using u dm l
    by (simp add: calls_call_tool_handle call_tool_try_domain_search calls_domain_search
          limit_domain_search_params or_default_def dict_get_default_def del: py_str.simps)
qed


theorem domain_search_default_limit_witness:
  "dict_get [(''name'', JStr ''domain_search''), (''arguments'', JObj [(''domain'', JStr ''x.com'')])]
     ''name'' = Some (JStr ''domain_search'')
   \<and> dict_get [(''name'', JStr ''domain_search''), (''arguments'', JObj [(''domain'', JStr ''x.com'')])]
     ''arguments'' = Some (JObj [(''domain'', JStr ''x.com'')])
   \<and> dict_get [(''domain'', JStr ''x.com'')] ''domain'' = Some (JStr ''x.com'')
   \<and> dict_get [(''domain'', JStr ''x.com'')] ''limit'' = None
   \<and> (\<exists>c. calls (snd (call_tool (always (Returned (JObj []))) ''KEY''
               (Inr (JObj [(''name'', JStr ''domain_search''),
                           (''arguments'', JObj [(''domain'', JStr ''x.com'')])])) world0))
             = calls world0 @ [c]
          \<and> url c = ''https://api.hunter.io/v2/domain-search''
          \<and> dict_get (params c) ''limit'' = Some (JInt 10))"
  using domain_search_default_limit
          [of "always (Returned (JObj []))" "''KEY''" "JStr ''x.com''" None world0
              "[(''name'', JStr ''domain_search''), (''arguments'', JObj [(''domain'', JStr ''x.com'')])]"
              "[(''domain'', JStr ''x.com'')]"]
  by (simp add: dict_get_def)

text \<open>
  Claim C5. The outbound call of \<^verbatim>\<open>find_email\<close> is a GET of the finder endpoint whose
  parameters have \<^verbatim>\<open>domain\<close> and the key, have each of \<^verbatim>\<open>first_name\<close>,
  \<^verbatim>\<open>last_name\<close>, \<^verbatim>\<open>company\<close> and \<^verbatim>\<open>full_name\<close> exactly when the caller gave a
  value that is not empty (for a string: not \<^verbatim>\<open>""\<close>), with that value, and have nothing
  else. When the upstream returns an object, the operation returns its \<^verbatim>\<open>data\<close>, or the
  empty mapping when there is none.
\<close>

theorem find_email_outbound_call:
  "\<exists>c. calls (snd (find_email tr key domain first_name last_name company full_name w)) = calls w @ [c]
     \<and> http_method c = ''GET''
     \<and> url c = ''https://api.hunter.io/v2/email-finder''
     \<and> dict_get (params c) ''domain'' = Some domain
     \<and> dict_get (params c) ''api_key'' = Some (JStr key)
     \<and> dict_get (params c) ''first_name'' =
         (if py_truthy (or_default first_name JNull) then first_name else None)
     \<and> dict_get (params c) ''last_name'' =
         (if py_truthy (or_default last_name JNull) then last_name else None)
     \<and> dict_get (params c) ''company'' =
         (if py_truthy (or_default company JNull) then company else None)
     \<and> dict_get (params c) ''full_name'' =
         (if py_truthy (or_default full_name JNull) then full_name else None)
     \<and> fst ` set (params c) \<subseteq> insert ''api_key'' (set find_email_names)
     \<and> (\<forall>env. tr c = Returned (JObj env) \<longrightarrow>
          fst (find_email tr key domain first_name last_name company full_name w) =
            Inr (case dict_get env ''data'' of Some v \<Rightarrow> v | None \<Rightarrow> JObj []))"
proof -
  let ?ps = "find_email_params domain first_name last_name company full_name"
  let ?c = "api_call key ''GET'' ''email-finder'' ?ps"
  have 1: "calls (snd (find_email tr key domain first_name last_name company full_name w)) = calls w @ [?c]"
    by (rule calls_find_email)
  have 2: "http_method ?c = ''GET''" "url ?c = ''https://api.hunter.io/v2/email-finder''"
    by (simp_all add: api_call_def BASE_URL_def)
  have 3: "dict_get (params ?c) ''api_key'' = Some (JStr key)"
    by (simp add: api_call_def dict_get_dict_set)
  have 4: "fst ` set (params ?c) \<subseteq> insert ''api_key'' (set find_email_names)"
    using find_email_params_keys [of domain first_name last_name company full_name]
    by (auto simp: api_call_def keys_dict_set)
  have 5: "\<forall>env. tr ?c = Returned (JObj env) \<longrightarrow>
          fst (find_email tr key domain first_name last_name company full_name w) =
            Inr (case dict_get env ''data'' of Some v \<Rightarrow> v | None \<Rightarrow> JObj [])"
    by (simp add: find_email_def fst_envelope_data request_returned py_get_def dict_get_default_def)
  show ?thesis
    apply (rule exI [of _ ?c])
    using 1 2 3 4 5 by (simp add: dict_get_find_email_params find_email_params_get)
qed



theorem find_email_outbound_call_witness:
  "always (Returned (JObj [(''data'', JObj [(''email'', JStr ''ann@x.com'')])]))
     \<lparr>http_method = ''GET'', url = ''https://api.hunter.io/v2/email-finder'',
      params = [(''domain'', JStr ''x.com''), (''first_name'', JStr ''Ann''),
                (''api_key'', JStr ''KEY'')]\<rparr>
     = Returned (JObj [(''data'', JObj [(''email'', JStr ''ann@x.com'')])])
   \<and> calls (snd (find_email
        (always (Returned (JObj [(''data'', JObj [(''email'', JStr ''ann@x.com'')])]))) ''KEY''
        (JStr ''x.com'') (Some (JStr ''Ann'')) (Some (JStr [])) None None world0)) =
      [\<lparr>http_method = ''GET'', url = ''https://api.hunter.io/v2/email-finder'',
        params = [(''domain'', JStr ''x.com''), (''first_name'', JStr ''Ann''),
                  (''api_key'', JStr ''KEY'')]\<rparr>]
   \<and> fst (find_email
        (always (Returned (JObj [(''data'', JObj [(''email'', JStr ''ann@x.com'')])]))) ''KEY''
        (JStr ''x.com'') (Some (JStr ''Ann'')) (Some (JStr [])) None None world0) =
      Inr (JObj [(''email'', JStr ''ann@x.com'')])"
  using find_email_outbound_call
          [of "always (Returned (JObj [(''data'', JObj [(''email'', JStr ''ann@x.com'')])]))" "''KEY''"
              "JStr ''x.com''" "Some (JStr ''Ann'')" "Some (JStr [])" None None world0]
  by (auto simp: always_def world0_def dict_get_def calls_find_email api_call_def
        find_email_params_def add_if_truthy_def or_default_def BASE_URL_def)

section \<open>What \<^verbatim>\<open>call_tool\<close> checks before it dispatches\<close>






section \<open>Failures\<close>

text \<open>
  Claim C9 fails on the code: in \<^verbatim>\<open>main.py\<close> the statement
  \<^verbatim>\<open>data = await request.json()\<close> stands before the \<^verbatim>\<open>try\<close>, so the exception of a
  body that is not JSON leaves \<^verbatim>\<open>call_tool\<close> uncaught and no error envelope is made;
  the same holds for a body that is JSON but no object, where \<^verbatim>\<open>data.get\<close> raises. The
  reduced server \<^verbatim>\<open>simple_mcp.py\<close> has both statements inside its \<^verbatim>\<open>try\<close> and
  answers these requests with HTTP 500 and \<^verbatim>\<open>{"error": <message>}\<close>.
\<close>

theorem call_tool_malformed_body_uncaught:
  "fst (call_tool (always (Returned (JObj []))) ''KEY''
          (Inl (Exc (Other_exception ''JSONDecodeError'') ''Expecting value: line 1 column 1 (char 0)''))
          world0)
     = Unhandled (Exc (Other_exception ''JSONDecodeError'') ''Expecting value: line 1 column 1 (char 0)'')
   \<and> fst (simple_call_tool (always (Returned (JObj []))) ''KEY''
          (Inl (Exc (Other_exception ''JSONDecodeError'') ''Expecting value: line 1 column 1 (char 0)''))
          world0)
     = Response 500 (JObj [(''error'', JStr ''Expecting value: line 1 column 1 (char 0)'')])
   \<and> fst (call_tool (always (Returned (JObj []))) ''KEY'' (Inr (JList [])) world0)
     = Unhandled (Exc AttributeError (squote # ''list'' @ squote # '' object has no attribute ''
                                      @ squote # ''get'' @ [squote]))
   \<and> fst (simple_call_tool (always (Returned (JObj []))) ''KEY'' (Inr (JList [])) world0)
     = Response 500 (JObj [(''error'', JStr (squote # ''list'' @ squote # '' object has no attribute ''
                                      @ squote # ''get'' @ [squote]))])"
  by (simp add: call_tool_def simple_call_tool_def simple_call_tool_try_def py_get_def
        no_attribute_def error_response_def)

text \<open>
  Claim C3 fails on the code, at the claim's own example. The handler of
  \<^verbatim>\<open>aiohttp.ClientResponseError\<close> calls \<^verbatim>\<open>response.json()\<close> after the
  \<^verbatim>\<open>async with\<close> block of the request has ended, and leaving that block releases the
  response. \<^verbatim>\<open>raise_for_status\<close> raised before anything had read the body, so the read
  comes too late: on a released response it raises
  \<^verbatim>\<open>ClientConnectionError('Connection closed')\<close>. Raised inside the handler, that
  exception is caught by no clause of \<^verbatim>\<open>_request\<close>. For an upstream 401 with the body
  \<^verbatim>\<open>{"errors":[{"details":"Invalid API key"}]}\<close> the operation therefore raises the
  library's exception instead of the uniform error, and \<^verbatim>\<open>POST /tools/call\<close> answers
  HTTP 500 with the message \<^verbatim>\<open>Connection closed\<close>, which does not end in
  \<^verbatim>\<open>Invalid API key\<close>.
\<close>

theorem upstream_401_connection_closed:
  "fst (verify_email
          (always (Response_error 401 ''Unauthorized''
             (Some (''application/json'',
                    Inl (Exc (Other_exception ''ClientConnectionError'') ''Connection closed'')))))
          ''KEY'' (JStr ''a@b.com'') world0)
     = Inl (Exc (Other_exception ''ClientConnectionError'') ''Connection closed'')
   \<and> fst (call_tool
          (always (Response_error 401 ''Unauthorized''
             (Some (''application/json'',
                    Inl (Exc (Other_exception ''ClientConnectionError'') ''Connection closed'')))))
          ''KEY''
          (Inr (JObj [(''name'', JStr ''email_verifier''),
                      (''arguments'', JObj [(''email'', JStr ''a@b.com'')])])) world0)
     = Response 500 (JObj [(''error'', JStr ''Connection closed'')])"
  by (simp add: verify_email_def fst_envelope_data HunterAPI_request_def always_def Let_def
        call_tool_object fst_call_tool_handle call_tool_try_verifier py_getitem_def
        dict_get_default_def dict_get_def fst_wrap_result error_response_def
        del: py_str.simps)

text \<open>Whatever \<^verbatim>\<open>response.json()\<close> raises inside the handler leaves the operation as it
  is, under every status and message.\<close>

lemma request_handler_body_raises:
  "tr (api_call key m ep ps) = Response_error status msg (Some (''application/json'', Inl e)) \<Longrightarrow>
     fst (HunterAPI_request tr key m ep ps w) = Inl e"
  by (simp add: HunterAPI_request_def Let_def)

text \<open>Where the handler does get a body from \<^verbatim>\<open>response.json()\<close> (one that had been
  read before the response was released), or does not ask for it because the content type
  is not JSON, it raises the uniform error: with the \<^verbatim>\<open>details\<close> of the first entry of
  \<^verbatim>\<open>errors\<close>, and with the status message when the content type is not JSON or the
  object has no \<^verbatim>\<open>errors\<close>.\<close>

lemma request_error_message:
  "tr (api_call key m ep ps) = Response_error status msg (Some (ct, body)) \<Longrightarrow>
     (ct = ''application/json'' \<longrightarrow> body = Inr (JObj b) \<longrightarrow>
        dict_get b ''errors'' = Some (JList (JObj e # es)) \<longrightarrow> dict_get e ''details'' = Some (JStr d) \<longrightarrow>
        fst (HunterAPI_request tr key m ep ps w) = Inl (Exc ValueError (''Hunter API error: '' @ d)))
   \<and> (ct = ''application/json'' \<longrightarrow> body = Inr (JObj b) \<longrightarrow> dict_get b ''errors'' = None \<longrightarrow>
        fst (HunterAPI_request tr key m ep ps w) = Inl (Exc ValueError (''Hunter API error: '' @ msg)))
   \<and> (ct \<noteq> ''application/json'' \<longrightarrow>
        fst (HunterAPI_request tr key m ep ps w) = Inl (Exc ValueError (''Hunter API error: '' @ msg)))"
  by (simp add: HunterAPI_request_def Let_def first_error_details_def py_get_def py_index0_def
        dict_get_default_def dict_get_def)

lemma request_client_error:
  "tr (api_call key m ep ps) = Client_error msg \<Longrightarrow>
     fst (HunterAPI_request tr key m ep ps w) = Inl (Exc ValueError (''Request error: '' @ msg))"
  by (simp add: HunterAPI_request_def Let_def)

text \<open>
  Claim C4 fails on the code. The two \<^verbatim>\<open>except\<close> clauses catch the classes of
  \<^verbatim>\<open>aiohttp.ClientError\<close> only: a failure of the transport that is raised as another
  class, such as the \<^verbatim>\<open>asyncio.TimeoutError\<close> of an elapsed total timeout, reaches the
  caller as it is (second part). And the handler of a status outside 2xx can itself raise
  something else than the uniform error: what \<^verbatim>\<open>response.json()\<close> raises, as shown
  for claim C3, and, were it given the body \<^verbatim>\<open>{"errors": []}\<close>, the
  \<^verbatim>\<open>IndexError\<close> of its \<^verbatim>\<open>[0]\<close> (first part).
\<close>

theorem request_raises_other_than_uniform:
  "fst (find_email
          (always (Response_error 500 ''Internal Server Error''
                     (Some (''application/json'', Inr (JObj [(''errors'', JList [])])))))
          ''KEY'' (JStr ''x.com'') None None None (Some (JStr ''Ann Lee'')) world0)
     = Inl (Exc IndexError ''list index out of range'')
   \<and> fst (domain_search (always (Raised (Exc (Other_exception ''TimeoutError'') [])))
          ''KEY'' (JStr ''x.com'') None None world0)
     = Inl (Exc (Other_exception ''TimeoutError'') [])"
  by (simp add: find_email_def domain_search_def fst_envelope_data HunterAPI_request_def
        always_def Let_def first_error_details_def py_get_def py_index0_def
        dict_get_default_def dict_get_def)

section \<open>The event stream: order, spacing and cancellation\<close>

lemma outputs_run_Nil [simp]: "outputs (event_generator_run clock p []) = []"
  by (simp add: outputs_def)

lemma outputs_run_Cons:
  "outputs (event_generator_run clock p (s # ss)) =
     fst (snd (event_generator_step clock p s))
     # outputs (event_generator_run clock (snd (snd (event_generator_step clock p s))) ss)"
  by (simp add: outputs_def split: prod.splits)

lemma position_run_Nil [simp]: "position_of (event_generator_run clock p []) = p"
  by (simp add: position_of_def)

lemma position_run_Cons:
  "position_of (event_generator_run clock p (s # ss)) =
     position_of (event_generator_run clock (snd (snd (event_generator_step clock p s))) ss)"
  by (simp add: position_of_def split: prod.splits)

declare event_generator_run.simps [simp del]

lemma outputs_run_append:
  "outputs (event_generator_run clock p (xs @ ys)) =
     outputs (event_generator_run clock p xs)
     @ outputs (event_generator_run clock (position_of (event_generator_run clock p xs)) ys)"
  by (induction xs arbitrary: p) (simp_all add: outputs_run_Cons position_run_Cons)

lemma position_run_append:
  "position_of (event_generator_run clock p (xs @ ys)) =
     position_of (event_generator_run clock (position_of (event_generator_run clock p xs)) ys)"
  by (induction xs arbitrary: p) (simp_all add: position_run_Cons)

lemma outputs_run_take:
  "outputs (event_generator_run clock p (take k ss)) = take k (outputs (event_generator_run clock p ss))"
proof (induction ss arbitrary: k p)
  case Nil
  show ?case by simp
next
  case (Cons s ss)
  show ?case
    by (cases k) (simp_all add: outputs_run_Cons Cons.IH)
qed

lemma run_finished:
  "outputs (event_generator_run clock Finished ss) = replicate (length ss) Stopped"
  "position_of (event_generator_run clock Finished ss) = Finished"
  by (induction ss) (simp_all add: outputs_run_Cons position_run_Cons)

lemma step_never_restarts: "snd (snd (event_generator_step clock p s)) \<noteq> Not_started"
  by (cases p; cases s) simp_all

lemma run_never_restarts:
  "ss \<noteq> [] \<Longrightarrow> position_of (event_generator_run clock p ss) \<noteq> Not_started"
proof (induction ss arbitrary: p)
  case Nil
  then show ?case by simp
next
  case (Cons s ss)
  show ?case
  proof (cases ss)
    case Nil
    then show ?thesis by (simp add: position_run_Cons step_never_restarts)
  next
    case (Cons t ts)
    then show ?thesis using Cons.IH by (simp add: position_run_Cons)
  qed
qed

lemma step_stop:
  "p \<noteq> Not_started \<Longrightarrow> s \<noteq> Resume \<Longrightarrow>
     fst (snd (event_generator_step clock p s)) = Stopped
     \<and> snd (snd (event_generator_step clock p s)) = Finished"
  by (cases p; cases s) simp_all

lemma run_handshake:
  "outputs (event_generator_run clock Not_started (replicate 6 Resume)) = handshake"
  "position_of (event_generator_run clock Not_started (replicate 6 Resume)) = Sleep_3"
  by (simp_all add: eval_nat_numeral outputs_run_Cons position_run_Cons handshake_def)

lemma run_pings_from:
  "outputs (event_generator_run clock (At_ping c) (replicate (2 * k) Resume)) =
     concat (map (\<lambda>j. [Sleeping ping_interval, Yielded (ping_event clock j)]) [Suc c..<Suc (c + k)])"
proof (induction k arbitrary: c)
  case 0
  show ?case by simp
next
  case (Suc k)
  have "[Suc c..<Suc (c + Suc k)] = Suc c # [Suc (Suc c)..<Suc (Suc c + k)]"
    by (simp add: upt_conv_Cons)
  then show ?case
    using Suc.IH [of "Suc c"] by (simp add: outputs_run_Cons)
qed

lemma run_pings:
  "outputs (event_generator_run clock Sleep_3 (replicate (2 * k) Resume)) = pings clock k"
proof (cases k)
  case 0
  then show ?thesis by (simp add: pings_def)
next
  case (Suc j)
  have "[1..<Suc (Suc j)] = 1 # [Suc 1..<Suc (1 + j)]"
    by (simp add: upt_conv_Cons)
  then show ?thesis
    using run_pings_from [of clock 1 j] by (simp add: Suc outputs_run_Cons pings_def)
qed

lemma run_resumes:
  "outputs (event_generator_run clock Not_started (replicate n Resume)) =
     take n (handshake @ pings clock n)"
proof -
  have "replicate n Resume = take n (replicate 6 Resume @ replicate (2 * n) Resume)"
    by (simp add: replicate_add [symmetric] del: replicate_add)
  then have "outputs (event_generator_run clock Not_started (replicate n Resume)) =
      take n (outputs (event_generator_run clock Not_started
                (replicate 6 Resume @ replicate (2 * n) Resume)))"
    by (simp only: outputs_run_take)
  then show ?thesis
    by (simp only: outputs_run_append run_handshake run_pings)
qed

text \<open>
  Claim C8. A session is open once the consumer has asked for the first event. Driven on
  and on, the generator gives exactly this: the event \<^verbatim>\<open>connected\<close> with the data
  \<^verbatim>\<open>{"server": "hunter-mcp", "version": "1.0.0"}\<close>, the event \<^verbatim>\<open>capabilities\<close> with
  \<^verbatim>\<open>{"tools": true, "resources": true, "logging": true}\<close>, the event
  \<^verbatim>\<open>initialization_complete\<close> with \<^verbatim>\<open>{}\<close>, in this order and each once, a delay of
  100 milliseconds after each, and from then on a wait of 10000 milliseconds before every
  event \<^verbatim>\<open>ping\<close>, whose data is \<^verbatim>\<open>{"timestamp": t}\<close> with the time of the event
  loop. When the session is cancelled or closed, at whatever point, the generator ends
  without an exception, and whatever reaches it afterwards it gives out no further event.
  Time is what the code asks \<^verbatim>\<open>asyncio.sleep\<close> for.
\<close>

theorem event_generator_sequence:
  "outputs (event_generator_run clock Not_started (replicate n Resume)) =
     take n
       ([Yielded \<lparr>event = ''connected'',
                  data = ''{'' @ quoted ''server'' @ '': '' @ quoted ''hunter-mcp'' @ '', ''
                         @ quoted ''version'' @ '': '' @ quoted ''1.0.0'' @ ''}''\<rparr>,
         Sleeping 100,
         Yielded \<lparr>event = ''capabilities'',
                  data = ''{'' @ quoted ''tools'' @ '': true, '' @ quoted ''resources''
                         @ '': true, '' @ quoted ''logging'' @ '': true}''\<rparr>,
         Sleeping 100,
         Yielded \<lparr>event = ''initialization_complete'', data = ''{}''\<rparr>,
         Sleeping 100]
        @ concat (map (\<lambda>k. [Sleeping 10000,
                              Yielded \<lparr>event = ''ping'',
                                       data = ''{'' @ quoted ''timestamp'' @ '': '' @ clock k
                                              @ ''}''\<rparr>])
                    [1..<Suc n]))
   \<and> (0 < n \<longrightarrow> s \<noteq> Resume \<longrightarrow>
        outputs (event_generator_run clock Not_started (replicate n Resume @ s # rest)) =
          outputs (event_generator_run clock Not_started (replicate n Resume))
          @ replicate (Suc (length rest)) Stopped
        \<and> position_of (event_generator_run clock Not_started (replicate n Resume @ s # rest)) =
            Finished)"
  (is "?sequence \<and> ?cancellation")
proof
  have h: "handshake =
       [Yielded \<lparr>event = ''connected'',
                  data = ''{'' @ quoted ''server'' @ '': '' @ quoted ''hunter-mcp'' @ '', ''
                         @ quoted ''version'' @ '': '' @ quoted ''1.0.0'' @ ''}''\<rparr>,
         Sleeping 100,
         Yielded \<lparr>event = ''capabilities'',
                  data = ''{'' @ quoted ''tools'' @ '': true, '' @ quoted ''resources''
                         @ '': true, '' @ quoted ''logging'' @ '': true}''\<rparr>,
         Sleeping 100,
         Yielded \<lparr>event = ''initialization_complete'', data = ''{}''\<rparr>,
         Sleeping 100]"
    by (simp add: handshake_def connected_event_def capabilities_event_def
          initialization_complete_event_def handshake_delay_def json_string_def
          json_escape_char_def quoted_def dquote_def backslash_def)
  have p: "pings clock n =
       concat (map (\<lambda>k. [Sleeping 10000,
                            Yielded \<lparr>event = ''ping'',
                                     data = ''{'' @ quoted ''timestamp'' @ '': '' @ clock k
                                            @ ''}''\<rparr>])
                  [1..<Suc n])"
    by (simp add: pings_def ping_event_def ping_interval_def json_string_def
          json_escape_char_def quoted_def dquote_def backslash_def)
  show ?sequence
    unfolding h [symmetric] p [symmetric] by (rule run_resumes)
  show ?cancellation
  proof (intro impI)
    assume n: "0 < n" and s: "s \<noteq> Resume"
    let ?p = "position_of (event_generator_run clock Not_started (replicate n Resume))"
    from n have "?p \<noteq> Not_started"
      by (intro run_never_restarts) simp
    with s have stop: "fst (snd (event_generator_step clock ?p s)) = Stopped"
        "snd (snd (event_generator_step clock ?p s)) = Finished"
      using step_stop by blast+
    show "outputs (event_generator_run clock Not_started (replicate n Resume @ s # rest)) =
            outputs (event_generator_run clock Not_started (replicate n Resume))
            @ replicate (Suc (length rest)) Stopped
          \<and> position_of (event_generator_run clock Not_started (replicate n Resume @ s # rest)) =
              Finished"
      by (simp add: outputs_run_append outputs_run_Cons position_run_append position_run_Cons
            stop run_finished)
  qed
qed

theorem event_generator_sequence_witness:
  "(0::nat) < 8 \<and> Cancel \<noteq> Resume
   \<and> outputs (event_generator_run (\<lambda>k. ''12.5'') Not_started (replicate 8 Resume)) =
       [Yielded \<lparr>event = ''connected'',
                  data = ''{'' @ quoted ''server'' @ '': '' @ quoted ''hunter-mcp'' @ '', ''
                         @ quoted ''version'' @ '': '' @ quoted ''1.0.0'' @ ''}''\<rparr>,
        Sleeping 100,
        Yielded \<lparr>event = ''capabilities'',
                  data = ''{'' @ quoted ''tools'' @ '': true, '' @ quoted ''resources''
                         @ '': true, '' @ quoted ''logging'' @ '': true}''\<rparr>,
        Sleeping 100,
        Yielded \<lparr>event = ''initialization_complete'', data = ''{}''\<rparr>,
        Sleeping 100,
        Sleeping 10000,
        Yielded \<lparr>event = ''ping'', data = ''{'' @ quoted ''timestamp'' @ '': 12.5}''\<rparr>]
   \<and> outputs (event_generator_run (\<lambda>k. ''12.5'') Not_started
                 (replicate 8 Resume @ Cancel # [Resume, Resume])) =
       [Yielded \<lparr>event = ''connected'',
                  data = ''{'' @ quoted ''server'' @ '': '' @ quoted ''hunter-mcp'' @ '', ''
                         @ quoted ''version'' @ '': '' @ quoted ''1.0.0'' @ ''}''\<rparr>,
        Sleeping 100,
        Yielded \<lparr>event = ''capabilities'',
                  data = ''{'' @ quoted ''tools'' @ '': true, '' @ quoted ''resources''
                         @ '': true, '' @ quoted ''logging'' @ '': true}''\<rparr>,
        Sleeping 100,
        Yielded \<lparr>event = ''initialization_complete'', data = ''{}''\<rparr>,
        Sleeping 100,
        Sleeping 10000,
        Yielded \<lparr>event = ''ping'', data = ''{'' @ quoted ''timestamp'' @ '': 12.5}''\<rparr>,
        Stopped, Stopped, Stopped]
   \<and> position_of (event_generator_run (\<lambda>k. ''12.5'') Not_started
                     (replicate 8 Resume @ Cancel # [Resume, Resume])) = Finished"
  using event_generator_sequence [of "\<lambda>k. ''12.5''" 8 Cancel "[Resume, Resume]"]
  by (simp add: upt_conv_Cons)

section \<open>The credential\<close>

lemma ends_with_append [simp]: "ends_with (pre @ t) t"
  by (simp add: ends_with_def)

lemma dict_set_fresh: "k \<notin> fst ` set d \<Longrightarrow> dict_set d k v = d @ [(k, v)]"
  by (induction d) auto

lemma join_snoc: "\<exists>pre. join sep (xs @ [x]) = pre @ x"
proof (induction sep xs rule: join.induct)
  case (1 sep)
  show ?case by simp
next
  case (2 sep y)
  show ?case by simp
next
  case (3 sep y z zs)
  then obtain pre where "join sep ((z # zs) @ [x]) = pre @ x" by blast
  then show ?case by simp
qed

lemma py_repr_obj_snoc:
  "\<exists>pre. py_repr (JObj (d @ [(k, v)])) = pre @ py_repr_str k @ '': '' @ py_repr v @ ''}''"
proof -
  obtain pre where
    "join '', '' (map (\<lambda>kv. py_repr_str (fst kv) @ '': '' @ py_repr (snd kv)) d
                  @ [py_repr_str k @ '': '' @ py_repr v]) = pre @ py_repr_str k @ '': '' @ py_repr v"
    using join_snoc by blast
  then have "py_repr (JObj (d @ [(k, v)])) = (''{'' @ pre) @ py_repr_str k @ '': '' @ py_repr v @ ''}''"
    by simp
  then show ?thesis by blast
qed

lemma repr_api_key: "py_repr_str ''api_key'' = squote # ''api_key'' @ [squote]"
  by (simp add: py_repr_str_def repr_char_def repr_printable_def squote_def dquote_def
        backslash_def Let_def)

lemma log_output_DEBUG [simp]: "log_output DEBUG w = logs w"
proof -
  have "level_no DEBUG \<le> level_no l" for l by (cases l) simp_all
  then show ?thesis by (simp add: log_output_def)
qed

lemma request_logs_key:
  assumes "''api_key'' \<notin> fst ` set ps"
  shows "logs_key key (snd (HunterAPI_request tr key m ep ps w))"
proof -
  obtain pre where pre: "py_repr (JObj (ps @ [(''api_key'', JStr key)])) =
      pre @ py_repr_str ''api_key'' @ '': '' @ py_repr (JStr key) @ ''}''"
    using py_repr_obj_snoc by blast
  let ?m = "''Making '' @ m @ '' request to '' @ url (api_call key m ep ps) @ '' with params ''
            @ py_repr (JObj (params (api_call key m ep ps)))"
  let ?r = "\<lparr>logger = hunter_api_logger, lvl = DEBUG, message = ?m\<rparr>"
  have "?m = (''Making '' @ m @ '' request to '' @ url (api_call key m ep ps) @ '' with params '' @ pre)
             @ (squote # ''api_key'' @ squote # '': '' @ py_repr_str key @ ''}'')"
    using pre assms by (simp add: api_call_def dict_set_fresh repr_api_key del: py_repr.simps(6))
  then have e: "ends_with ?m (squote # ''api_key'' @ squote # '': '' @ py_repr_str key @ ''}'')"
    by (metis ends_with_append)
  have "?r \<in> set (logs (snd (HunterAPI_request tr key m ep ps w)))"
    by (simp add: HunterAPI_request_def Let_def emit_def
          split: reply.splits option.splits sum.splits prod.splits)
  with e show ?thesis
    unfolding logs_key_def main_log_level_def log_output_DEBUG list_ex_iff
    by (intro bexI [of _ ?r]) simp_all
qed

lemma api_key_fresh:
  "''api_key'' \<notin> fst ` set (find_email_params domain fn ln co fu)"
  "''api_key'' \<notin> fst ` set (domain_search_params domain lim ty)"
proof -
  show "''api_key'' \<notin> fst ` set (find_email_params domain fn ln co fu)"
    using find_email_params_keys [of domain fn ln co fu] by (auto simp: find_email_names_def)
  show "''api_key'' \<notin> fst ` set (domain_search_params domain lim ty)"
    by (simp add: domain_search_params_def add_if_truthy_def keys_dict_set)
qed

lemma api_call_has_key: "dict_get (params (api_call key m ep ps)) ''api_key'' = Some (JStr key)"
  by (simp add: api_call_def dict_get_dict_set)

lemma log_output_emit:
  "log_output t (emit n l m w) =
     log_output t w @ (if level_no t \<le> level_no l then [\<lparr>logger = n, lvl = l, message = m\<rparr>] else [])"
  by (simp add: log_output_def emit_def)

lemma log_output_other [simp]:
  "log_output t (w\<lparr>calls := cs\<rparr>) = log_output t w"
  "log_output t (ensure_session w) = log_output t w"
  by (simp_all add: log_output_def ensure_session_def)

lemma same_view_request:
  assumes "log_output INFO w1 = log_output INFO w2"
  shows "same_view (HunterAPI_request (always r) k1 m ep ps w1)
                   (HunterAPI_request (always r) k2 m ep ps w2)"
  using assms
  by (cases r)
     (simp_all add: same_view_def HunterAPI_request_def always_def Let_def log_output_emit
        split: option.splits sum.splits prod.splits)

lemma same_view_envelope_data:
  "same_view r1 r2 \<Longrightarrow> same_view (envelope_data r1) (envelope_data r2)"
  by (simp add: same_view_def fst_envelope_data)

lemma same_view_wrap_result:
  "same_view r1 r2 \<Longrightarrow> same_view (wrap_result r1) (wrap_result r2)"
  by (simp add: same_view_def fst_wrap_result)

lemma same_view_operations:
  assumes "log_output INFO w1 = log_output INFO w2"
  shows "same_view (find_email (always r) k1 domain fn ln co fu w1)
                   (find_email (always r) k2 domain fn ln co fu w2)"
    and "same_view (verify_email (always r) k1 email w1) (verify_email (always r) k2 email w2)"
    and "same_view (domain_search (always r) k1 domain lim ty w1)
                   (domain_search (always r) k2 domain lim ty w2)"
  using assms
  by (simp_all add: find_email_def verify_email_def domain_search_def same_view_envelope_data
        same_view_request)

lemma same_view_try:
  assumes "log_output INFO w1 = log_output INFO w2"
  shows "same_view (call_tool_try (always r) k1 name arguments w1)
                   (call_tool_try (always r) k2 name arguments w2)"
proof -
  have stay: "same_view (x, w1) (x, w2)" for x :: "pyexc + http_result"
    using assms by (simp add: same_view_def)
  show ?thesis
    unfolding call_tool_try_def
    by (auto simp: stay same_view_wrap_result same_view_operations [OF assms]
          split: sum.splits prod.splits)
qed

lemma same_view_handle:
  assumes "log_output INFO w1 = log_output INFO w2"
  shows "same_view (call_tool_handle (always r) k1 name arguments w1)
                   (call_tool_handle (always r) k2 name arguments w2)"
proof -
  let ?m = "''Tool call: '' @ py_str name @ '' with arguments '' @ py_str arguments"
  have "log_output INFO (emit main_logger INFO ?m w1) = log_output INFO (emit main_logger INFO ?m w2)"
    using assms by (simp add: log_output_emit)
  then have "same_view (call_tool_try (always r) k1 name arguments (emit main_logger INFO ?m w1))
                       (call_tool_try (always r) k2 name arguments (emit main_logger INFO ?m w2))"
    by (rule same_view_try)
  then show ?thesis
    by (auto simp: call_tool_handle_def Let_def same_view_def log_output_emit
          split: prod.splits sum.splits)
qed

lemma same_view_call_tool:
  "same_view (call_tool (always r) k1 body w) (call_tool (always r) k2 body w)"
proof -
  have stay: "same_view (x, w) (x, w)" for x :: http_result
    by (simp add: same_view_def)
  show ?thesis
    unfolding call_tool_def
    by (auto simp: stay same_view_handle split: sum.splits)
qed

text \<open>
  Claim C1 as stated does not hold: \<^verbatim>\<open>_request\<close> stores the key into the parameters
  and then writes the parameters into its debug record, and \<^verbatim>\<open>main.py\<close> sets the log
  level to DEBUG. The log of a single \<^verbatim>\<open>verify_email\<close> with the key \<^verbatim>\<open>SECRET\<close>:
\<close>

theorem credential_logged_at_debug:
  "map message (log_output main_log_level
      (snd (verify_email (always (Returned (JObj []))) ''SECRET'' (JStr ''a@b.com'') world0)))
   = [''Making GET request to https://api.hunter.io/v2/email-verifier with params ''
      @ ''{'email': 'a@b.com', 'api_key': 'SECRET'}'']"
  by (simp add: verify_email_def HunterAPI_request_def always_def Let_def main_log_level_def
        emit_def ensure_session_def world0_def api_call_def BASE_URL_def hunter_api_logger_def
        py_repr_str_def repr_char_def repr_printable_def squote_def dquote_def backslash_def)

text \<open>
  Claim C1, amended. Each of the three operations makes its outbound call with the key as
  the parameter \<^verbatim>\<open>api_key\<close>, and writes a debug record that ends with that parameter
  and the key in it. What the gateway answers to \<^verbatim>\<open>POST /tools/call\<close>, and what it
  logs from level INFO upwards, is the same under any two keys when the upstream's reply
  is the same: the gateway puts the key into no response and into no other log record.
\<close>

theorem credential_attached_and_logged:
  "(\<exists>c. calls (snd (find_email tr key domain first_name last_name company full_name w)) = calls w @ [c]
        \<and> dict_get (params c) ''api_key'' = Some (JStr key))
   \<and> logs_key key (snd (find_email tr key domain first_name last_name company full_name w))
   \<and> (\<exists>c. calls (snd (verify_email tr key email w)) = calls w @ [c]
        \<and> dict_get (params c) ''api_key'' = Some (JStr key))
   \<and> logs_key key (snd (verify_email tr key email w))
   \<and> (\<exists>c. calls (snd (domain_search tr key domain limit type w)) = calls w @ [c]
        \<and> dict_get (params c) ''api_key'' = Some (JStr key))
   \<and> logs_key key (snd (domain_search tr key domain limit type w))
   \<and> same_view (call_tool (always r) key body w) (call_tool (always r) key' body w)"
proof -
  have "logs_key key (snd (find_email tr key domain first_name last_name company full_name w))"
    and "logs_key key (snd (verify_email tr key email w))"
    and "logs_key key (snd (domain_search tr key domain limit type w))"
    by (simp_all add: find_email_def verify_email_def domain_search_def request_logs_key
          api_key_fresh)
  then show ?thesis
    by (simp add: calls_find_email calls_verify_email calls_domain_search api_call_has_key
          same_view_call_tool)
qed

end
